theory Spec2Isabelle
  imports Main
begin

section \<open>Data model\<close>

text \<open>
  The handlers of \<^verbatim>\<open>routes/orders.js\<close>, \<^verbatim>\<open>routes/production.js\<close> and the clusters
  router keep no state of their own: every call reads and writes the relational store
  declared in \<^verbatim>\<open>database/schema.sql\<close> and its migrations. The store is a record of
  tables, a table is the list of its rows in insertion order, and a handler is a function
  from the store and the request to the new store and the response.

  Conventions of the embedding:
  \<^item> a UUID is a natural number; a generated UUID is one that occurs nowhere yet;
  \<^item> a \<^verbatim>\<open>DATE\<close> is a day number, so that \<^verbatim>\<open>order('date')\<close> is the order of the numbers;
  \<^item> an \<^verbatim>\<open>INTEGER\<close> is an \<open>int\<close>, and a \<^verbatim>\<open>DECIMAL(10, 2)\<close> amount is held as its number
    of hundredths. The handlers multiply and add amounts as JavaScript numbers and the
    columns keep two decimals of the result; the embedding takes the stored two-decimal
    values, with exact arithmetic. The width of the numeric columns is not modelled;
  \<^item> a JSON field that may be absent or \<^verbatim>\<open>null\<close> is an \<open>option\<close>; quantities that are
    present are integers;
  \<^item> \<^verbatim>\<open>req.user\<close> is the payload of the verified token; the token and role guards of
    \<^verbatim>\<open>middleware/auth\<close> run before the handlers and are not part of them.
  Only the columns that the modelled handlers read or write are kept; the tables that
  they do not touch (employees, attendance, materials, invoices, impact metrics) are left out.
\<close>

type_synonym uuid = nat
type_synonym date = nat

datatype role = Admin | Client | Cluster

record user_row =
  u_id :: uuid
  u_email :: string
  u_name :: string
  u_role :: role
  u_location :: "string option"
  u_cluster_id :: "uuid option"

record cluster_row =
  c_id :: uuid
  c_name :: string
  c_manager_name :: string
  c_location :: string
  c_manager_id :: "uuid option"
  c_capacity :: int
  c_utilization :: int
  c_status :: string

record product_row =
  p_id :: uuid
  p_name :: string
  p_price :: int
  p_stock :: int

record order_row =
  o_id :: uuid
  o_user_id :: uuid
  o_product_id :: uuid
  o_quantity :: int
  o_amount :: int
  o_delivery_date :: "date option"
  o_status :: string

record order_item =
  oi_order_id :: uuid
  oi_product_id :: uuid
  oi_quantity :: int
  oi_unit_price :: int
  oi_total_price :: int

record production_row =
  pr_cluster_id :: uuid
  pr_product_id :: uuid
  pr_quantity :: int
  pr_shift :: string
  pr_date :: date

record client_profile =
  cp_user_id :: uuid
  cp_phone :: "string option"
  cp_city :: "string option"
  cp_district :: "string option"
  cp_state :: "string option"
  cp_address_line :: "string option"

record db =
  users :: "user_row list"
  clusters :: "cluster_row list"
  products :: "product_row list"
  orders :: "order_row list"
  order_items :: "order_item list"
  production :: "production_row list"
  client_profiles :: "client_profile list"

record auth_user =
  au_id :: uuid
  au_role :: role
  au_cluster_id :: "uuid option"

section \<open>The datastore\<close>

text \<open>
  What the Supabase client returns is what PostgreSQL does under the schema of
  \<^verbatim>\<open>database/*.sql\<close>: a statement either succeeds or reports an error and changes
  nothing. The constraints modelled are the ones on the kept columns: primary and unique
  keys, \<^verbatim>\<open>NOT NULL\<close>, \<^verbatim>\<open>CHECK\<close>, \<^verbatim>\<open>VARCHAR(255)\<close> on the text columns of users and
  clusters, and the foreign keys, which have no \<^verbatim>\<open>ON DELETE\<close> action except
  \<^verbatim>\<open>client_profiles.user_id\<close> and \<^verbatim>\<open>order_items.order_id\<close> (\<^verbatim>\<open>CASCADE\<close>).
\<close>

datatype pg_error =
  NotNullViolation | UniqueViolation | ForeignKeyViolation | CheckViolation | StringTooLong

text \<open>\<^verbatim>\<open>.single()\<close>: the row when exactly one row matches, no data otherwise.\<close>

definition single :: "'a list \<Rightarrow> 'a option" where
  "single rows = (case rows of [r] \<Rightarrow> Some r | _ \<Rightarrow> None)"

text \<open>\<^verbatim>\<open>uuid_generate_v4()\<close>: an identifier different from every one in use.\<close>

definition fresh :: "uuid list \<Rightarrow> uuid" where
  "fresh used = Suc (foldr max used 0)"

text \<open>
  A value stored in a \<^verbatim>\<open>VARCHAR(n)\<close> column: longer strings are an error, unless the
  excess is spaces only, which PostgreSQL cuts off.
\<close>

definition varchar :: "nat \<Rightarrow> string \<Rightarrow> string option" where
  "varchar n s = (if list_all (\<lambda>c. c = CHR '' '') (drop n s) then Some (take n s) else None)"

definition product_by_id :: "db \<Rightarrow> uuid \<Rightarrow> product_row option" where
  "product_by_id d pid = single (filter (\<lambda>p. p_id p = pid) (products d))"

definition cluster_by_id :: "db \<Rightarrow> uuid \<Rightarrow> cluster_row option" where
  "cluster_by_id d cid = single (filter (\<lambda>c. c_id c = cid) (clusters d))"

definition profile_by_user :: "db \<Rightarrow> uuid \<Rightarrow> client_profile option" where
  "profile_by_user d uid = single (filter (\<lambda>p. cp_user_id p = uid) (client_profiles d))"

definition user_by_email :: "db \<Rightarrow> string \<Rightarrow> user_row option" where
  "user_by_email d e = single (filter (\<lambda>u. u_email u = e) (users d))"

definition order_ids_in_use :: "db \<Rightarrow> uuid list" where
  "order_ids_in_use d = map o_id (orders d) @ map oi_order_id (order_items d)"

text \<open>
  \<^verbatim>\<open>from('orders').insert([...]).select().single()\<close>: \<open>mk\<close> builds the row from its
  generated id. \<^verbatim>\<open>orders.user_id\<close> and \<^verbatim>\<open>orders.product_id\<close> are foreign keys.
\<close>

definition orders_insert :: "db \<Rightarrow> (uuid \<Rightarrow> order_row) \<Rightarrow> pg_error + (db \<times> order_row)" where
  "orders_insert d mk =
     (let row = mk (fresh (order_ids_in_use d)) in
      if o_user_id row \<notin> set (map u_id (users d)) then Inl ForeignKeyViolation
      else if o_product_id row \<notin> set (map p_id (products d)) then Inl ForeignKeyViolation
      else Inr (d\<lparr>orders := orders d @ [row]\<rparr>, row))"

text \<open>
  \<^verbatim>\<open>from('order_items').insert(orderItems)\<close>: one statement for all rows;
  \<^verbatim>\<open>order_id\<close> and \<^verbatim>\<open>product_id\<close> are foreign keys and
  \<^verbatim>\<open>CHECK (quantity > 0)\<close> holds of every row.
\<close>

definition order_items_insert :: "db \<Rightarrow> order_item list \<Rightarrow> pg_error + db" where
  "order_items_insert d its =
     (if \<not> list_all (\<lambda>it. oi_order_id it \<in> set (map o_id (orders d))
                           \<and> oi_product_id it \<in> set (map p_id (products d))) its
      then Inl ForeignKeyViolation
      else if \<not> list_all (\<lambda>it. 0 < oi_quantity it) its then Inl CheckViolation
      else Inr (d\<lparr>order_items := order_items d @ its\<rparr>))"

text \<open>\<^verbatim>\<open>from('products').update({ stock }).eq('id', id)\<close>.\<close>

definition products_update_stock :: "db \<Rightarrow> uuid \<Rightarrow> int \<Rightarrow> db" where
  "products_update_stock d pid v =
     d\<lparr>products := map (\<lambda>p. if p_id p = pid then p\<lparr>p_stock := v\<rparr> else p) (products d)\<rparr>"

section \<open>Cart checkout: \<^verbatim>\<open>POST /api/orders/cart\<close>\<close>

record cart_line =
  l_product_id :: "uuid option"
  l_quantity :: "int option"

record product_detail =
  pd_product_id :: uuid
  pd_product_name :: string
  pd_quantity :: int
  pd_unit_price :: int
  pd_total_price :: int
  pd_current_stock :: int

text \<open>
  The responses of the two order handlers, one constructor for each \<^verbatim>\<open>res.status(..).json(..)\<close>
  of the source. \<open>InsufficientStock\<close> carries the product's name and its available stock,
  as the message of the cart handler does; the legacy handler's messages carry nothing.
\<close>

datatype response =
    OrderPlaced order_row "order_item list"
  | SingleOrderPlaced order_row
  | CartItemsRequired
  | ProfileIncomplete
  | InvalidProductOrQuantity
  | ProductAndQuantityRequired
  | ProductNotFound uuid
  | ProductNotFoundLegacy
  | InsufficientStock string int
  | InsufficientStockLegacy
  | FailedToCreateOrder

fun http_status :: "response \<Rightarrow> nat" where
  "http_status (OrderPlaced _ _) = 201"
| "http_status (SingleOrderPlaced _) = 201"
| "http_status CartItemsRequired = 400"
| "http_status ProfileIncomplete = 400"
| "http_status InvalidProductOrQuantity = 400"
| "http_status ProductAndQuantityRequired = 400"
| "http_status (ProductNotFound _) = 404"
| "http_status ProductNotFoundLegacy = 404"
| "http_status (InsufficientStock _ _) = 400"
| "http_status InsufficientStockLegacy = 400"
| "http_status FailedToCreateOrder = 500"

text \<open>The \<^verbatim>\<open>profileIncomplete: true\<close> member of the error body.\<close>

fun profileIncomplete :: "response \<Rightarrow> bool" where
  "profileIncomplete ProfileIncomplete = True"
| "profileIncomplete _ = False"

text \<open>\<^verbatim>\<open>!s\<close> for a text column: \<^verbatim>\<open>null\<close> and the empty string are falsy.\<close>

definition blank :: "string option \<Rightarrow> bool" where
  "blank s \<longleftrightarrow> s = None \<or> s = Some []"

definition profile_incomplete :: "client_profile option \<Rightarrow> bool" where
  "profile_incomplete profile =
     (case profile of
        None \<Rightarrow> True
      | Some p \<Rightarrow> blank (cp_phone p) \<or> blank (cp_city p) \<or> blank (cp_district p)
                  \<or> blank (cp_state p) \<or> blank (cp_address_line p))"

text \<open>
  The first loop of the handler: validates every line against the stored product, adds
  up \<^verbatim>\<open>totalAmount\<close> and collects \<^verbatim>\<open>productDetails\<close>. It only reads the store.
\<close>

fun validate_items ::
  "db \<Rightarrow> cart_line list \<Rightarrow> int \<Rightarrow> product_detail list \<Rightarrow> response + (int \<times> product_detail list)"
where
  "validate_items d [] totalAmount productDetails = Inr (totalAmount, productDetails)"
| "validate_items d (item # rest) totalAmount productDetails =
     (case (l_product_id item, l_quantity item) of
        (Some product_id, Some quantity) \<Rightarrow>
          if quantity = 0 \<or> quantity \<le> 0 then Inl InvalidProductOrQuantity
          else (case product_by_id d product_id of
                  None \<Rightarrow> Inl (ProductNotFound product_id)
                | Some product \<Rightarrow>
                    if p_stock product < quantity
                    then Inl (InsufficientStock (p_name product) (p_stock product))
                    else
                      let itemTotal = p_price product * quantity in
                      validate_items d rest (totalAmount + itemTotal)
                        (productDetails @
                          [\<lparr>pd_product_id = p_id product, pd_product_name = p_name product,
                            pd_quantity = quantity, pd_unit_price = p_price product,
                            pd_total_price = itemTotal, pd_current_stock = p_stock product\<rparr>]))
      | _ \<Rightarrow> Inl InvalidProductOrQuantity)"

text \<open>The last loop: one stock write per collected line, in order.\<close>

fun update_stock :: "db \<Rightarrow> product_detail list \<Rightarrow> db" where
  "update_stock d [] = d"
| "update_stock d (item # rest) =
     update_stock (products_update_stock d (pd_product_id item)
                     (pd_current_stock item - pd_quantity item)) rest"

definition orderItems_of :: "order_row \<Rightarrow> product_detail list \<Rightarrow> order_item list" where
  "orderItems_of order productDetails =
     map (\<lambda>item. \<lparr>oi_order_id = o_id order, oi_product_id = pd_product_id item,
                   oi_quantity = pd_quantity item, oi_unit_price = pd_unit_price item,
                   oi_total_price = pd_total_price item\<rparr>) productDetails"

definition post_cart ::
  "db \<Rightarrow> auth_user \<Rightarrow> cart_line list option \<Rightarrow> date option \<Rightarrow> db \<times> response"
where
  "post_cart d user items delivery_date =
     (case items of
        None \<Rightarrow> (d, CartItemsRequired)
      | Some [] \<Rightarrow> (d, CartItemsRequired)
      | Some its \<Rightarrow>
          if profile_incomplete (profile_by_user d (au_id user)) then (d, ProfileIncomplete)
          else (case validate_items d its 0 [] of
                  Inl r \<Rightarrow> (d, r)
                | Inr (totalAmount, productDetails) \<Rightarrow>
                    (case productDetails of
                       [] \<Rightarrow> (d, FailedToCreateOrder)
                     | first # _ \<Rightarrow>
                    (case orders_insert d
                            (\<lambda>i. \<lparr>o_id = i, o_user_id = au_id user,
                                   o_product_id = pd_product_id first,
                                   o_quantity = foldl (\<lambda>sum item. sum + pd_quantity item) 0 productDetails,
                                   o_amount = totalAmount,
                                   o_delivery_date = delivery_date,
                                   o_status = ''Pending''\<rparr>) of
                       Inl e \<Rightarrow> (d, FailedToCreateOrder)
                     | Inr (d1, order) \<Rightarrow>
                         let orderItems = orderItems_of order productDetails in
                         (case order_items_insert d1 orderItems of
                            Inl e \<Rightarrow> (d1, FailedToCreateOrder)
                          | Inr d2 \<Rightarrow>
                              (update_stock d2 productDetails, OrderPlaced order orderItems))))))"

section \<open>Legacy single-product order: \<^verbatim>\<open>POST /api/orders\<close>\<close>

definition post_order ::
  "db \<Rightarrow> auth_user \<Rightarrow> uuid option \<Rightarrow> int option \<Rightarrow> date option \<Rightarrow> db \<times> response"
where
  "post_order d user product_id quantity delivery_date =
     (case (product_id, quantity) of
        (Some pid, Some q) \<Rightarrow>
          if q = 0 then (d, ProductAndQuantityRequired)
          else (case product_by_id d pid of
                  None \<Rightarrow> (d, ProductNotFoundLegacy)
                | Some product \<Rightarrow>
                    if p_stock product < q then (d, InsufficientStockLegacy)
                    else
                      let amount = p_price product * q in
                      (case orders_insert d
                              (\<lambda>i. \<lparr>o_id = i, o_user_id = au_id user, o_product_id = pid,
                                     o_quantity = q, o_amount = amount,
                                     o_delivery_date = delivery_date,
                                     o_status = ''Pending''\<rparr>) of
                         Inl e \<Rightarrow> (d, FailedToCreateOrder)
                       | Inr (d1, order) \<Rightarrow>
                           (products_update_stock d1 pid (p_stock product - q),
                            SingleOrderPlaced order)))
      | _ \<Rightarrow> (d, ProductAndQuantityRequired))"

section \<open>Production and utilization: \<^verbatim>\<open>routes/production.js\<close>\<close>






datatype production_response =
    ProductionCreated production_row
  | AllFieldsRequired
  | NoClusterForUser
  | FailedToCreateProduction

fun production_status :: "production_response \<Rightarrow> nat" where
  "production_status (ProductionCreated _) = 201"
| "production_status AllFieldsRequired = 400"
| "production_status NoClusterForUser = 400"
| "production_status FailedToCreateProduction = 500"


section \<open>Clusters router: read paths\<close>





section \<open>Clusters router: create and delete\<close>

fun somes :: "'a option list \<Rightarrow> 'a list" where
  "somes [] = []"
| "somes (None # xs) = somes xs"
| "somes (Some x # xs) = x # somes xs"

text \<open>The rows that hold a cluster's id, and the rows that hold a user's id.\<close>

definition cluster_refs :: "db \<Rightarrow> uuid list" where
  "cluster_refs d = somes (map u_cluster_id (users d)) @ map pr_cluster_id (production d)"

definition user_refs :: "db \<Rightarrow> uuid list" where
  "user_refs d = somes (map c_manager_id (clusters d)) @ map o_user_id (orders d)"

text \<open>
  \<^verbatim>\<open>from('clusters').insert([{ name, manager_name, location, capacity, status: 'Active',
  utilization: 0 }])\<close>. \<^verbatim>\<open>clusters.location\<close> is \<^verbatim>\<open>NOT NULL\<close>.
\<close>

definition clusters_insert ::
  "db \<Rightarrow> string \<Rightarrow> string \<Rightarrow> string option \<Rightarrow> int \<Rightarrow> pg_error + (db \<times> cluster_row)"
where
  "clusters_insert d name manager_name location capacity =
     (case location of
        None \<Rightarrow> Inl NotNullViolation
      | Some loc \<Rightarrow>
          (case (varchar 255 name, varchar 255 manager_name, varchar 255 loc) of
             (Some n, Some m, Some l) \<Rightarrow>
               let row = \<lparr>c_id = fresh (map c_id (clusters d) @ cluster_refs d),
                          c_name = n, c_manager_name = m, c_location = l,
                          c_manager_id = None, c_capacity = capacity, c_utilization = 0,
                          c_status = ''Active''\<rparr>
               in Inr (d\<lparr>clusters := clusters d @ [row]\<rparr>, row)
           | _ \<Rightarrow> Inl StringTooLong))"

text \<open>
  \<^verbatim>\<open>from('users').insert([{ email, password_hash, name, role, location, cluster_id }])\<close>.
  \<^verbatim>\<open>users.email\<close> is \<^verbatim>\<open>UNIQUE\<close>, \<^verbatim>\<open>users.cluster_id\<close> a foreign key. The password hash
  is not kept.
\<close>

definition users_insert ::
  "db \<Rightarrow> string \<Rightarrow> string \<Rightarrow> role \<Rightarrow> string option \<Rightarrow> uuid option \<Rightarrow> pg_error + (db \<times> user_row)"
where
  "users_insert d email name r location cluster_id =
     (case (varchar 255 email, varchar 255 name) of
        (Some e, Some n) \<Rightarrow>
          if (case location of None \<Rightarrow> False | Some l \<Rightarrow> varchar 255 l = None)
          then Inl StringTooLong
          else if e \<in> set (map u_email (users d)) then Inl UniqueViolation
          else if (case cluster_id of None \<Rightarrow> False
                   | Some c \<Rightarrow> c \<notin> set (map c_id (clusters d)))
          then Inl ForeignKeyViolation
          else
            let row = \<lparr>u_id = fresh (map u_id (users d) @ user_refs d
                                        @ map cp_user_id (client_profiles d)),
                       u_email = e, u_name = n, u_role = r,
                       u_location = (case location of None \<Rightarrow> None | Some l \<Rightarrow> varchar 255 l),
                       u_cluster_id = cluster_id\<rparr>
            in Inr (d\<lparr>users := users d @ [row]\<rparr>, row)
      | _ \<Rightarrow> Inl StringTooLong)"

text \<open>
  \<^verbatim>\<open>from('clusters').update({ manager_id }).eq('id', id)\<close>; \<^verbatim>\<open>clusters.manager_id\<close> is a
  foreign key. The handler does not look at the outcome.
\<close>

definition clusters_update_manager :: "db \<Rightarrow> uuid \<Rightarrow> uuid \<Rightarrow> db" where
  "clusters_update_manager d cid uid =
     (if uid \<in> set (map u_id (users d))
      then d\<lparr>clusters := map (\<lambda>c. if c_id c = cid then c\<lparr>c_manager_id := Some uid\<rparr> else c)
                              (clusters d)\<rparr>
      else d)"

text \<open>
  \<^verbatim>\<open>from('users').delete().eq(..)\<close>. \<^verbatim>\<open>clusters.manager_id\<close> and \<^verbatim>\<open>orders.user_id\<close>
  reference users with no \<^verbatim>\<open>ON DELETE\<close> action: a user that one of them names cannot be
  deleted. \<^verbatim>\<open>client_profiles.user_id\<close> cascades.
\<close>

definition users_delete :: "db \<Rightarrow> (user_row \<Rightarrow> bool) \<Rightarrow> pg_error + db" where
  "users_delete d P =
     (let doomed = map u_id (filter P (users d)) in
      if list_ex (\<lambda>i. i \<in> set doomed) (user_refs d) then Inl ForeignKeyViolation
      else Inr (d\<lparr>users := filter (\<lambda>u. \<not> P u) (users d),
                   client_profiles :=
                     filter (\<lambda>p. cp_user_id p \<notin> set doomed) (client_profiles d)\<rparr>))"

text \<open>
  \<^verbatim>\<open>from('clusters').delete().eq('id', id)\<close>. \<^verbatim>\<open>users.cluster_id\<close> and
  \<^verbatim>\<open>production.cluster_id\<close> reference clusters with no \<^verbatim>\<open>ON DELETE\<close> action (as does
  \<^verbatim>\<open>attendance.cluster_id\<close>, of a table left out).
\<close>

definition clusters_delete :: "db \<Rightarrow> uuid \<Rightarrow> pg_error + db" where
  "clusters_delete d cid =
     (if cid \<in> set (map c_id (clusters d)) \<and> cid \<in> set (cluster_refs d)
      then Inl ForeignKeyViolation
      else Inr (d\<lparr>clusters := filter (\<lambda>c. c_id c \<noteq> cid) (clusters d)\<rparr>))"

record cluster_request =
  rq_name :: "string option"
  rq_manager_name :: "string option"
  rq_email :: "string option"
  rq_password :: "string option"
  rq_location :: "string option"
  rq_city :: "string option"
  rq_province :: "string option"
  rq_capacity :: "int option"

datatype cluster_response =
    ClusterCreated cluster_row string
  | AllRequiredFields
  | EmailAlreadyExists
  | FailedToCreateCluster
  | ClusterDeleted
  | FailedToDeleteCluster

fun cluster_status :: "cluster_response \<Rightarrow> nat" where
  "cluster_status (ClusterCreated _ _) = 201"
| "cluster_status AllRequiredFields = 400"
| "cluster_status EmailAlreadyExists = 400"
| "cluster_status FailedToCreateCluster = 500"
| "cluster_status ClusterDeleted = 200"
| "cluster_status FailedToDeleteCluster = 500"

text \<open>\<^verbatim>\<open>a || b\<close> on text values.\<close>

definition js_or :: "string option \<Rightarrow> string option \<Rightarrow> string option" where
  "js_or a b = (if blank a then b else a)"

text \<open>
  \<^verbatim>\<open>location || (city && province ? `${city}, ${province}` : city || province)\<close>.
\<close>

definition locationValue ::
  "string option \<Rightarrow> string option \<Rightarrow> string option \<Rightarrow> string option" where
  "locationValue location city province =
     js_or location
       (case (city, province) of
          (Some c, Some p) \<Rightarrow> if c \<noteq> [] \<and> p \<noteq> [] then Some (c @ '', '' @ p)
                              else js_or city province
        | _ \<Rightarrow> js_or city province)"

text \<open>\<^verbatim>\<open>POST /api/clusters\<close>.\<close>

definition create_cluster :: "db \<Rightarrow> cluster_request \<Rightarrow> db \<times> cluster_response" where
  "create_cluster d rq =
     (case (rq_name rq, rq_manager_name rq, rq_email rq, rq_password rq, rq_capacity rq) of
        (Some name, Some manager_name, Some email, Some password, Some capacity) \<Rightarrow>
          if name = [] \<or> manager_name = [] \<or> email = [] \<or> password = [] \<or> capacity = 0
          then (d, AllRequiredFields)
          else if user_by_email d email \<noteq> None then (d, EmailAlreadyExists)
          else
            (case clusters_insert d name manager_name
                    (locationValue (rq_location rq) (rq_city rq) (rq_province rq)) capacity of
               Inl clusterError \<Rightarrow> (d, FailedToCreateCluster)
             | Inr (d1, cluster) \<Rightarrow>
                 (case users_insert d1 email (name @ '' Manager'') Cluster (rq_location rq)
                         (Some (c_id cluster)) of
                    Inl userError \<Rightarrow>
                      ((case clusters_delete d1 (c_id cluster) of
                          Inl e \<Rightarrow> d1
                        | Inr d2 \<Rightarrow> d2),
                       FailedToCreateCluster)
                  | Inr (d2, user) \<Rightarrow>
                      (clusters_update_manager d2 (c_id cluster) (u_id user),
                       ClusterCreated (cluster\<lparr>c_manager_id := Some (u_id user)\<rparr>) email)))
      | _ \<Rightarrow> (d, AllRequiredFields))"

text \<open>
  \<^verbatim>\<open>DELETE /api/clusters/:id\<close>. The outcome of the second delete (the manager) is not
  looked at; the first and the third throw.
\<close>

definition delete_cluster :: "db \<Rightarrow> uuid \<Rightarrow> db \<times> cluster_response" where
  "delete_cluster d clusterId =
     (case users_delete d (\<lambda>u. u_cluster_id u = Some clusterId) of
        Inl userDeleteError \<Rightarrow> (d, FailedToDeleteCluster)
      | Inr d1 \<Rightarrow>
          let d2 = (case cluster_by_id d1 clusterId of
                      None \<Rightarrow> d1
                    | Some c \<Rightarrow>
                        (case c_manager_id c of
                           None \<Rightarrow> d1
                         | Some manager_id \<Rightarrow>
                             (case users_delete d1 (\<lambda>u. u_id u = manager_id) of
                                Inl managerDeleteError \<Rightarrow> d1
                              | Inr d' \<Rightarrow> d')))
          in (case clusters_delete d2 clusterId of
                Inl clusterDeleteError \<Rightarrow> (d2, FailedToDeleteCluster)
              | Inr d3 \<Rightarrow> (d3, ClusterDeleted)))"

section \<open>Vocabulary of the statements\<close>

text \<open>
  A cart line passes the validation loop when it names a stored product and a positive
  quantity that the product's stock covers. \<open>line_detail\<close> is the entry of
  \<^verbatim>\<open>productDetails\<close> that the loop pushes for such a line, \<open>final_stock\<close> the value that
  the sequence of stock writes leaves in a product, and \<open>cart_order\<close> the order row of a
  checkout.
\<close>

definition line_ok :: "db \<Rightarrow> cart_line \<Rightarrow> bool" where
  "line_ok d l =
     (case (l_product_id l, l_quantity l) of
        (Some pid, Some q) \<Rightarrow>
          0 < q \<and> (case product_by_id d pid of None \<Rightarrow> False | Some p \<Rightarrow> q \<le> p_stock p)
      | _ \<Rightarrow> False)"

definition line_detail :: "db \<Rightarrow> cart_line \<Rightarrow> product_detail" where
  "line_detail d l =
     (let product = the (product_by_id d (the (l_product_id l))); quantity = the (l_quantity l) in
      \<lparr>pd_product_id = p_id product, pd_product_name = p_name product,
        pd_quantity = quantity, pd_unit_price = p_price product,
        pd_total_price = p_price product * quantity, pd_current_stock = p_stock product\<rparr>)"

fun final_stock :: "product_detail list \<Rightarrow> uuid \<Rightarrow> int \<Rightarrow> int" where
  "final_stock [] pid s = s"
| "final_stock (x # xs) pid s =
     final_stock xs pid (if pd_product_id x = pid then pd_current_stock x - pd_quantity x else s)"

definition cart_order :: "db \<Rightarrow> auth_user \<Rightarrow> cart_line list \<Rightarrow> date option \<Rightarrow> order_row" where
  "cart_order d user items delivery_date =
     \<lparr>o_id = fresh (order_ids_in_use d), o_user_id = au_id user,
       o_product_id = pd_product_id (line_detail d (hd items)),
       o_quantity = sum_list (map (pd_quantity \<circ> line_detail d) items),
       o_amount = sum_list (map (pd_total_price \<circ> line_detail d) items),
       o_delivery_date = delivery_date, o_status = ''Pending''\<rparr>"







section \<open>Example states\<close>

definition client1 :: auth_user where
  "client1 = \<lparr>au_id = 7, au_role = Client, au_cluster_id = None\<rparr>"

definition shop_db :: db where
  "shop_db =
     \<lparr>users = [\<lparr>u_id = 7, u_email = ''a@b'', u_name = ''A'', u_role = Client,
                  u_location = None, u_cluster_id = None\<rparr>],
      clusters = [],
      products = [\<lparr>p_id = 10, p_name = ''Plate'', p_price = 4500, p_stock = 10\<rparr>,
                  \<lparr>p_id = 20, p_name = ''Bowl'', p_price = 3500, p_stock = 0\<rparr>],
      orders = [], order_items = [], production = [],
      client_profiles = [\<lparr>cp_user_id = 7, cp_phone = Some ''0300'', cp_city = Some ''Sukkur'',
                            cp_district = Some ''Sukkur'', cp_state = Some ''Sindh'',
                            cp_address_line = Some ''Street 1''\<rparr>]\<rparr>"

definition line :: "uuid \<Rightarrow> int \<Rightarrow> cart_line" where
  "line pid q = \<lparr>l_product_id = Some pid, l_quantity = Some q\<rparr>"




definition cluster30 :: cluster_row where
  "cluster30 = \<lparr>c_id = 30, c_name = ''Sukkur Cluster'', c_manager_name = ''M'',
                 c_location = ''Sukkur, Sindh'', c_manager_id = None, c_capacity = 100,
                 c_utilization = 0, c_status = ''Active''\<rparr>"

definition util_db :: db where
  "util_db =
     \<lparr>users = [], clusters = [cluster30],
      products = [\<lparr>p_id = 10, p_name = ''Plate'', p_price = 4500, p_stock = 10\<rparr>],
      orders = [], order_items = [],
      production = [\<lparr>pr_cluster_id = 30, pr_product_id = 10, pr_quantity = 10,
                      pr_shift = ''Morning'', pr_date = 98\<rparr>,
                    \<lparr>pr_cluster_id = 30, pr_product_id = 10, pr_quantity = 5,
                      pr_shift = ''Morning'', pr_date = 99\<rparr>,
                    \<lparr>pr_cluster_id = 30, pr_product_id = 10, pr_quantity = - 5,
                      pr_shift = ''Evening'', pr_date = 99\<rparr>],
      client_profiles = []\<rparr>"


definition rohri_request :: cluster_request where
  "rohri_request =
     \<lparr>rq_name = Some ''Rohri Unit'', rq_manager_name = Some ''Ali'',
      rq_email = Some ''rohri@greenverse.com'', rq_password = Some ''secret1'',
      rq_location = None, rq_city = Some ''Rohri'', rq_province = Some ''Sindh'',
      rq_capacity = Some 60\<rparr>"

definition long_name_request :: cluster_request where
  "long_name_request = rohri_request\<lparr>rq_name := Some (replicate 250 (CHR ''x''))\<rparr>"


section \<open>The cart checkout\<close>

lemma validate_items_ok:
  "list_all (line_ok d) items \<Longrightarrow>
   validate_items d items t ds =
     Inr (t + sum_list (map (pd_total_price \<circ> line_detail d) items), ds @ map (line_detail d) items)"
proof (induction items arbitrary: t ds)
  case Nil
  then show ?case by simp
next
  case (Cons l items)
  then show ?case
    by (auto simp: line_ok_def line_detail_def Let_def split: option.splits)
qed

lemma validate_items_Cons_Inr:
  assumes "validate_items d (l # items) t ds = Inr res"
  shows "line_ok d l \<and> validate_items d items (t + pd_total_price (line_detail d l))
                          (ds @ [line_detail d l]) = Inr res"
  using assms
  by (auto simp: line_ok_def line_detail_def Let_def split: option.splits if_splits)

lemma validate_items_Inr:
  "validate_items d items t ds = Inr res \<Longrightarrow> list_all (line_ok d) items"
proof (induction items arbitrary: t ds)
  case Nil
  then show ?case by simp
next
  case (Cons l items)
  from validate_items_Cons_Inr [OF Cons.prems] Cons.IH show ?case by auto
qed


lemma update_stock_products:
  "update_stock d ds =
     d\<lparr>products := map (\<lambda>p. p\<lparr>p_stock := final_stock ds (p_id p) (p_stock p)\<rparr>) (products d)\<rparr>"
proof (induction ds arbitrary: d)
  case Nil
  then show ?case by (simp add: map_idI)
next
  case (Cons x ds)
  show ?case
    by (simp add: Cons products_update_stock_def o_def)
qed

lemma final_stock_last:
  "final_stock ds pid s =
     (case filter (\<lambda>x. pd_product_id x = pid) ds of
        [] \<Rightarrow> s
      | y # ys \<Rightarrow> pd_current_stock (last (y # ys)) - pd_quantity (last (y # ys)))"
proof (induction ds arbitrary: s)
  case Nil
  then show ?case by simp
next
  case (Cons x ds)
  then show ?case by (auto split: list.splits)
qed

lemma single_filter_map:
  assumes "\<And>x. k (f x) = k x"
  shows "single (filter (\<lambda>x. k x = i) (map f xs)) = map_option f (single (filter (\<lambda>x. k x = i) xs))"
proof -
  have "filter (\<lambda>x. k x = i) (map f xs) = map f (filter (\<lambda>x. k x = i) xs)"
    by (induction xs) (auto simp: assms)
  then show ?thesis by (auto simp: single_def split: list.splits)
qed

lemma product_by_id_update_stock:
  "product_by_id (update_stock d ds) pid =
     map_option (\<lambda>p. p\<lparr>p_stock := final_stock ds pid (p_stock p)\<rparr>) (product_by_id d pid)"
proof -
  have "product_by_id (update_stock d ds) pid =
        map_option (\<lambda>p. p\<lparr>p_stock := final_stock ds (p_id p) (p_stock p)\<rparr>) (product_by_id d pid)"
    unfolding product_by_id_def update_stock_products
    by (simp add: single_filter_map [where k = p_id])
  moreover have "\<And>p. product_by_id d pid = Some p \<Longrightarrow> p_id p = pid"
    by (auto simp: product_by_id_def single_def split: list.splits dest!: filter_eq_ConsD)
  ultimately show ?thesis by (cases "product_by_id d pid") auto
qed


lemma product_by_id_SomeD:
  "product_by_id d pid = Some p \<Longrightarrow> p \<in> set (products d) \<and> p_id p = pid"
proof -
  assume "product_by_id d pid = Some p"
  then have "filter (\<lambda>p. p_id p = pid) (products d) = [p]"
    by (auto simp: product_by_id_def single_def split: list.splits)
  then have "p \<in> set (filter (\<lambda>p. p_id p = pid) (products d))" by simp
  then show ?thesis by simp
qed

lemma line_ok_detail:
  assumes "line_ok d l"
  shows "pd_product_id (line_detail d l) \<in> set (map p_id (products d))"
    and "0 < pd_quantity (line_detail d l)"
    and "l_product_id l = Some (pd_product_id (line_detail d l))"
    and "l_quantity l = Some (pd_quantity (line_detail d l))"
    and "\<exists>p. product_by_id d (pd_product_id (line_detail d l)) = Some p
           \<and> pd_unit_price (line_detail d l) = p_price p
           \<and> pd_current_stock (line_detail d l) = p_stock p
           \<and> pd_quantity (line_detail d l) \<le> p_stock p"
    and "pd_total_price (line_detail d l) = pd_unit_price (line_detail d l) * pd_quantity (line_detail d l)"
  using assms
  by (auto simp: line_ok_def line_detail_def Let_def split: option.splits dest: product_by_id_SomeD)

lemma foldl_add_sum_list:
  "foldl (\<lambda>sum x. sum + f x) a xs = a + sum_list (map f xs)"
  for a :: int
  by (induction xs arbitrary: a) auto

lemma post_cart_success:
  assumes "items \<noteq> []" and "\<not> profile_incomplete (profile_by_user d (au_id user))"
    and "list_all (line_ok d) items" and "au_id user \<in> set (map u_id (users d))"
  shows "post_cart d user (Some items) delivery_date =
     (update_stock
        (d\<lparr>orders := orders d @ [cart_order d user items delivery_date],
            order_items := order_items d @
               orderItems_of (cart_order d user items delivery_date) (map (line_detail d) items)\<rparr>)
        (map (line_detail d) items),
      OrderPlaced (cart_order d user items delivery_date)
        (orderItems_of (cart_order d user items delivery_date) (map (line_detail d) items)))"
proof -
  obtain l rest where items: "items = l # rest" using assms(1) by (cases items) auto
  have v: "validate_items d items 0 [] =
      Inr (sum_list (map (pd_total_price \<circ> line_detail d) items), map (line_detail d) items)"
    using validate_items_ok [OF assms(3), of 0 "[]"] by simp
  have pids: "\<forall>l \<in> set items. pd_product_id (line_detail d l) \<in> set (map p_id (products d))"
    and qs: "\<forall>l \<in> set items. 0 < pd_quantity (line_detail d l)"
    using assms(3) line_ok_detail(1,2) by (auto simp: list_all_iff)
  have first: "pd_product_id (line_detail d l) \<in> p_id ` set (products d)"
    using pids items by auto
  have oi: "orders_insert d
        (\<lambda>i. \<lparr>o_id = i, o_user_id = au_id user,
               o_product_id = pd_product_id (line_detail d l),
               o_quantity = foldl (\<lambda>sum item. sum + pd_quantity item) 0 (map (line_detail d) items),
               o_amount = sum_list (map (pd_total_price \<circ> line_detail d) items),
               o_delivery_date = delivery_date, o_status = ''Pending''\<rparr>)
      = Inr (d\<lparr>orders := orders d @ [cart_order d user items delivery_date]\<rparr>,
             cart_order d user items delivery_date)"
    using assms(4) first
    by (simp add: orders_insert_def cart_order_def Let_def foldl_add_sum_list items o_def)
  have ii: "order_items_insert (d\<lparr>orders := orders d @ [cart_order d user items delivery_date]\<rparr>)
        (orderItems_of (cart_order d user items delivery_date) (map (line_detail d) items))
      = Inr (d\<lparr>orders := orders d @ [cart_order d user items delivery_date],
                order_items := order_items d @
                  orderItems_of (cart_order d user items delivery_date) (map (line_detail d) items)\<rparr>)"
    using pids qs
    by (auto simp: order_items_insert_def orderItems_of_def list_all_iff)
  show ?thesis
    using assms(2) v oi ii
    by (simp add: post_cart_def items Let_def)
qed

lemma validate_items_Inl_status:
  "validate_items d items t ds = Inl r \<Longrightarrow> http_status r \<noteq> 201"
proof (induction items arbitrary: t ds)
  case Nil
  then show ?case by simp
next
  case (Cons l items)
  then show ?case
    by (auto simp: Let_def split: option.splits if_splits)
qed

lemma post_cart_201D:
  assumes "http_status (snd (post_cart d user items delivery_date)) = 201"
  shows "\<exists>its. items = Some its \<and> its \<noteq> [] \<and>
           \<not> profile_incomplete (profile_by_user d (au_id user)) \<and>
           list_all (line_ok d) its \<and> au_id user \<in> set (map u_id (users d))"
proof -
  have u: "au_id user \<in> set (map u_id (users d))"
    if "orders_insert d (\<lambda>i. \<lparr>o_id = i, o_user_id = au_id user, o_product_id = a,
          o_quantity = b, o_amount = c, o_delivery_date = e, o_status = f\<rparr>) = Inr x"
    for a b c e f x
    using that by (auto simp: orders_insert_def Let_def split: if_splits)
  obtain its where its: "items = Some its" "its \<noteq> []"
    using assms by (cases items; cases "the items") (auto simp: post_cart_def)
  have prof: "\<not> profile_incomplete (profile_by_user d (au_id user))"
    using assms its by (cases its) (auto simp: post_cart_def split: if_splits)
  obtain t ds where v: "validate_items d its 0 [] = Inr (t, ds)"
    using assms its prof validate_items_Inl_status [of d its 0 "[]"]
    by (cases its; cases "validate_items d its 0 []")
       (auto simp: post_cart_def simp del: validate_items.simps)
  have "au_id user \<in> set (map u_id (users d))"
    using assms its prof v
    by (cases its)
       (auto simp: post_cart_def Let_def simp del: validate_items.simps
          split: list.splits sum.splits prod.splits dest: u)
  with its prof validate_items_Inr [OF v] show ?thesis by blast
qed


lemma fresh_notin: "fresh used \<notin> set used"
proof -
  have "x \<le> foldr max used 0" if "x \<in> set used" for x
    using that by (induction used) auto
  then show ?thesis by (fastforce simp: fresh_def)
qed

lemma filter_details:
  assumes "list_all (line_ok d) items"
  shows "filter (\<lambda>x. pd_product_id x = pid) (map (line_detail d) items) =
         map (line_detail d) (filter (\<lambda>l. l_product_id l = Some pid) items)"
  using assms
  by (induction items) (auto simp: line_ok_detail(3))


lemma post_cart_stock:
  assumes "post_cart d user (Some items) delivery_date = (d', r)" and "http_status r = 201"
    and "product_by_id d pid = Some p"
    and "filter (\<lambda>l. l_product_id l = Some pid) items = lines" and "lines \<noteq> []"
  shows "product_by_id d' pid =
           Some (p\<lparr>p_stock := p_stock p - pd_quantity (line_detail d (last lines))\<rparr>)"
proof -
  from assms(1,2) post_cart_201D [of d user "Some items" delivery_date]
  have ne: "items \<noteq> []" and prof: "\<not> profile_incomplete (profile_by_user d (au_id user))"
    and ok: "list_all (line_ok d) items" and u: "au_id user \<in> set (map u_id (users d))"
    by auto
  let ?ds = "map (line_detail d) items"
  from post_cart_success [OF ne prof ok u, of delivery_date] assms(1)
  obtain d0 where d': "d' = update_stock d0 ?ds" and d0: "products d0 = products d"
    by auto
  have p0: "product_by_id d0 pid = Some p"
    using assms(3) d0 by (simp add: product_by_id_def)
  obtain y ys where ys: "lines = y # ys" using assms(5) by (cases lines) auto
  have last_in: "last lines \<in> set items"
    using last_in_set [OF assms(5)] assms(4) by auto
  then have lk: "line_ok d (last lines)" using ok by (simp add: list_all_iff)
  have "last lines \<in> set (filter (\<lambda>l. l_product_id l = Some pid) items)"
    using last_in_set [OF assms(5)] assms(4) by simp
  then have lp: "l_product_id (last lines) = Some pid" by simp
  have cur: "pd_current_stock (line_detail d (last lines)) = p_stock p"
    using line_ok_detail(3,5) [OF lk] lp assms(3) by auto
  have "final_stock ?ds pid (p_stock p) =
          pd_current_stock (line_detail d (last lines)) - pd_quantity (line_detail d (last lines))"
    unfolding final_stock_last filter_details [OF ok] assms(4)
    using assms(5) by (simp add: ys last_map)
  with cur show ?thesis
    by (simp add: d' product_by_id_update_stock p0)
qed

lemma sum_list_pos_int:
  fixes f :: "'a \<Rightarrow> int"
  assumes "xs \<noteq> []" and "\<forall>x \<in> set xs. 0 < f x"
  shows "0 < sum_list (map f xs)"
  using assms
proof (induction xs)
  case Nil
  then show ?case by simp
next
  case (Cons a xs)
  have "0 \<le> sum_list (map f xs)"
    by (rule sum_list_nonneg) (use Cons.prems in \<open>auto simp: less_imp_le\<close>)
  moreover have "0 < f a" using Cons.prems by simp
  ultimately show ?case by simp
qed

lemma shop_profile_complete:
  "\<not> profile_incomplete (profile_by_user shop_db (au_id client1))"
  by (simp add: profile_incomplete_def profile_by_user_def shop_db_def client1_def single_def
        blank_def)

lemma shop_plate:
  "product_by_id shop_db 10 = Some \<lparr>p_id = 10, p_name = ''Plate'', p_price = 4500, p_stock = 10\<rparr>"
  by (simp add: product_by_id_def shop_db_def single_def)


lemma shop_two_lines_201:
  "http_status (snd (post_cart shop_db client1 (Some [line 10 3, line 10 4]) None)) = 201"
proof -
  have "list_all (line_ok shop_db) [line 10 3, line 10 4]"
    by (simp add: line_ok_def line_def shop_plate)
  moreover have "au_id client1 \<in> set (map u_id (users shop_db))"
    by (simp add: client1_def shop_db_def)
  ultimately show ?thesis
    using post_cart_success [OF _ shop_profile_complete, of "[line 10 3, line 10 4]" None]
    by simp
qed







text \<open>
  Claim C3. A checkout answers 201 for a cart with two or more lines for product \<open>pid\<close>,
  whose stock was \<open>S\<close>. Then every one of these lines was checked against \<open>S\<close>; the
  stock writes are those of \<^verbatim>\<open>productDetails\<close>, in which every entry for the product
  carries \<open>S\<close> as its \<^verbatim>\<open>current_stock\<close>, so each write stores \<open>S\<close> minus its own
  quantity; and afterwards the stock is \<open>S\<close> minus the quantity of the last such line,
  which is more than \<open>S\<close> minus the sum of their quantities.
\<close>

theorem cart_duplicate_lines:
  assumes "post_cart d user (Some items) delivery_date = (d', r)" and "http_status r = 201"
    and "product_by_id d pid = Some p"
    and "lines = filter (\<lambda>l. l_product_id l = Some pid) items" and "2 \<le> length lines"
  shows "(\<forall>l \<in> set lines. \<exists>q. l_quantity l = Some q \<and> 0 < q \<and> q \<le> p_stock p) \<and>
         (\<exists>t ds. validate_items d items 0 [] = Inr (t, ds) \<and>
                  products d' = products (update_stock d ds) \<and>
                  (\<forall>x \<in> set ds. pd_product_id x = pid \<longrightarrow> pd_current_stock x = p_stock p)) \<and>
         (\<exists>q. l_quantity (last lines) = Some q \<and>
               product_by_id d' pid = Some (p\<lparr>p_stock := p_stock p - q\<rparr>) \<and>
               p_stock p - (\<Sum>l\<leftarrow>lines. the (l_quantity l)) < p_stock p - q)"
proof -
  from assms(1,2) post_cart_201D [of d user "Some items" delivery_date]
  have ne: "items \<noteq> []" and prof: "\<not> profile_incomplete (profile_by_user d (au_id user))"
    and ok: "list_all (line_ok d) items" and u: "au_id user \<in> set (map u_id (users d))"
    by auto
  have lne: "lines \<noteq> []" using assms(5) by auto
  have sub: "set lines \<subseteq> set items" using assms(4) by auto
  have each: "\<exists>q. l_quantity l = Some q \<and> 0 < q \<and> q \<le> p_stock p
                 \<and> pd_quantity (line_detail d l) = q \<and> pd_current_stock (line_detail d l) = p_stock p"
    if "l \<in> set lines" for l
  proof -
    have lk: "line_ok d l" using that sub ok by (auto simp: list_all_iff)
    have lp: "l_product_id l = Some pid" using that assms(4) by simp
    from line_ok_detail(2,3,4,5) [OF lk] lp assms(3) show ?thesis by auto
  qed
  have A: "\<forall>l \<in> set lines. \<exists>q. l_quantity l = Some q \<and> 0 < q \<and> q \<le> p_stock p"
    using each by blast
  let ?ds = "map (line_detail d) items"
  have v: "validate_items d items 0 [] =
      Inr (sum_list (map (pd_total_price \<circ> line_detail d) items), ?ds)"
    using validate_items_ok [OF ok, of 0 "[]"] by simp
  have d': "products d' = products (update_stock d ?ds)"
    using post_cart_success [OF ne prof ok u, of delivery_date] assms(1)
    by (auto simp: update_stock_products)
  have cur: "\<forall>x \<in> set ?ds. pd_product_id x = pid \<longrightarrow> pd_current_stock x = p_stock p"
  proof
    fix x assume "x \<in> set ?ds"
    then obtain l where l: "l \<in> set items" "x = line_detail d l" by auto
    then have lk: "line_ok d l" using ok by (auto simp: list_all_iff)
    show "pd_product_id x = pid \<longrightarrow> pd_current_stock x = p_stock p"
      using line_ok_detail(5) [OF lk] l assms(3) by auto
  qed
  have B: "\<exists>t ds. validate_items d items 0 [] = Inr (t, ds) \<and>
                  products d' = products (update_stock d ds) \<and>
                  (\<forall>x \<in> set ds. pd_product_id x = pid \<longrightarrow> pd_current_stock x = p_stock p)"
    using v d' cur by blast
  obtain q where q: "l_quantity (last lines) = Some q" "pd_quantity (line_detail d (last lines)) = q"
    using each [OF last_in_set [OF lne]] by blast
  have st: "product_by_id d' pid = Some (p\<lparr>p_stock := p_stock p - q\<rparr>)"
    using post_cart_stock [OF assms(1,2,3) assms(4) [symmetric] lne] q by simp
  have pos: "\<forall>l \<in> set lines. 0 < the (l_quantity l)" using each by fastforce
  obtain bs b where bs: "lines = bs @ [b]" using lne by (cases lines rule: rev_cases) auto
  have bne: "bs \<noteq> []" using assms(5) bs by auto
  have "0 < (\<Sum>l\<leftarrow>bs. the (l_quantity l))"
    using sum_list_pos_int [OF bne, of "\<lambda>l. the (l_quantity l)"] pos bs by simp
  then have "q < (\<Sum>l\<leftarrow>lines. the (l_quantity l))"
    using q(1) bs by simp
  then have C: "p_stock p - (\<Sum>l\<leftarrow>lines. the (l_quantity l)) < p_stock p - q" by simp
  from A B q(1) st C show ?thesis by blast
qed


theorem cart_duplicate_lines_witness:
  "http_status (snd (post_cart shop_db client1 (Some [line 10 3, line 10 4]) None)) = 201 \<and>
   product_by_id (fst (post_cart shop_db client1 (Some [line 10 3, line 10 4]) None)) 10
     = Some \<lparr>p_id = 10, p_name = ''Plate'', p_price = 4500, p_stock = 6\<rparr>"
proof -
  have f: "[line 10 3, line 10 4] = filter (\<lambda>l. l_product_id l = Some 10) [line 10 3, line 10 4]"
    by (simp add: line_def)
  have n: "2 \<le> length [line 10 3, line 10 4]" by simp
  from cart_duplicate_lines [OF prod.collapse [symmetric] shop_two_lines_201 shop_plate f n]
  show ?thesis using shop_two_lines_201 by (auto simp: line_def)
qed

section \<open>Profile check of the cart checkout\<close>

text \<open>
  Claim C4, as the handler has it. The handler looks at the items before it looks at the
  profile. For a client whose profile is missing or has an empty field, a checkout with a
  non-empty list of items fails with ProfileIncomplete: status 400, the
  \<^verbatim>\<open>profileIncomplete\<close> flag set, store unchanged, whatever the lines are. With an absent
  or empty list it fails with the generic ``Cart items are required'', which carries no flag.
\<close>

theorem cart_profile_incomplete:
  assumes "profile_incomplete (profile_by_user d (au_id user))"
  shows "\<exists>r. post_cart d user items delivery_date = (d, r) \<and> http_status r = 400 \<and>
             r = (if items = None \<or> items = Some [] then CartItemsRequired else ProfileIncomplete) \<and>
             (profileIncomplete r \<longleftrightarrow> items \<noteq> None \<and> items \<noteq> Some [])"
  using assms by (auto simp: post_cart_def split: option.splits list.splits)

theorem cart_profile_incomplete_witness:
  "profile_incomplete (profile_by_user (shop_db\<lparr>client_profiles := []\<rparr>) (au_id client1)) \<and>
   post_cart (shop_db\<lparr>client_profiles := []\<rparr>) client1 (Some [line 10 3]) None
     = (shop_db\<lparr>client_profiles := []\<rparr>, ProfileIncomplete)"
proof -
  have h: "profile_incomplete (profile_by_user (shop_db\<lparr>client_profiles := []\<rparr>) (au_id client1))"
    by (simp add: profile_incomplete_def profile_by_user_def single_def)
  show ?thesis
    using h cart_profile_incomplete [OF h, of "Some [line 10 3]" None] by auto
qed

text \<open>
  Claim C4 as stated fails on an empty cart: the client has no profile, and the response
  is ``Cart items are required'' without the flag.
\<close>

theorem cart_profile_incomplete_counterexample:
  "profile_incomplete (profile_by_user (shop_db\<lparr>client_profiles := []\<rparr>) (au_id client1)) \<and>
   snd (post_cart (shop_db\<lparr>client_profiles := []\<rparr>) client1 (Some []) None) = CartItemsRequired \<and>
   snd (post_cart (shop_db\<lparr>client_profiles := []\<rparr>) client1 (Some []) None) \<noteq> ProfileIncomplete \<and>
   \<not> profileIncomplete (snd (post_cart (shop_db\<lparr>client_profiles := []\<rparr>) client1 (Some []) None))"
  by (simp add: post_cart_def profile_incomplete_def profile_by_user_def single_def)

section \<open>Production, stock and utilization\<close>















section \<open>Utilization on the read paths\<close>













section \<open>Cluster creation and deletion\<close>

lemma somes_set: "x \<in> set (somes xs) \<longleftrightarrow> Some x \<in> set xs"
  by (induction xs rule: somes.induct) auto

lemma notin_mapD: "a \<notin> set (map f xs) \<Longrightarrow> x \<in> set xs \<Longrightarrow> f x \<noteq> a"
  by (induction xs) auto

lemma clusters_insert_Inr:
  assumes "clusters_insert d name manager_name location capacity = Inr (d1, cluster)"
  shows "d1 = d\<lparr>clusters := clusters d @ [cluster]\<rparr>"
    and "c_id cluster = fresh (map c_id (clusters d) @ cluster_refs d)"
    and "c_manager_id cluster = None"
  using assms
  by (auto simp: clusters_insert_def Let_def split: option.splits)

lemma clusters_insert_fresh:
  assumes "clusters_insert d name manager_name location capacity = Inr (d1, cluster)"
  shows "c_id cluster \<notin> set (map c_id (clusters d))" and "c_id cluster \<notin> set (cluster_refs d)"
  using fresh_notin [of "map c_id (clusters d) @ cluster_refs d"] clusters_insert_Inr(2) [OF assms]
  by auto

lemma clusters_insert_delete:
  assumes "clusters_insert d name manager_name location capacity = Inr (d1, cluster)"
  shows "clusters_delete d1 (c_id cluster) = Inr d"
proof -
  note d1 = clusters_insert_Inr(1) [OF assms]
  note f = clusters_insert_fresh [OF assms]
  have r: "cluster_refs d1 = cluster_refs d" by (simp add: d1 cluster_refs_def)
  have "filter (\<lambda>c. c_id c \<noteq> c_id cluster) (clusters d) = clusters d"
    using notin_mapD [OF f(1)] by (simp add: filter_id_conv)
  then show ?thesis
    using f(2) by (simp add: clusters_delete_def r) (simp add: d1)
qed

lemma users_insert_Inr:
  assumes "users_insert d email name r location cluster_id = Inr (d2, user)"
  shows "d2 = d\<lparr>users := users d @ [user]\<rparr>"
    and "u_role user = r" and "u_cluster_id user = cluster_id"
  using assms
  by (auto simp: users_insert_def Let_def split: option.splits if_splits)

lemma create_cluster_created:
  assumes "create_cluster d rq = (d', ClusterCreated c email)"
  shows "\<exists>u. users d' = users d @ [u] \<and> u_role u = Cluster \<and>
             u_cluster_id u = Some (c_id c) \<and> c_manager_id c = Some (u_id u) \<and>
             clusters d' = clusters d @ [c] \<and>
             c_id c \<notin> set (map c_id (clusters d)) \<and> c_id c \<notin> set (cluster_refs d) \<and>
             production d' = production d \<and> orders d' = orders d"
proof -
  from assms obtain name manager_name em password capacity d1 cluster d2 user where
    ci: "clusters_insert d name manager_name
            (locationValue (rq_location rq) (rq_city rq) (rq_province rq)) capacity
          = Inr (d1, cluster)"
    and ui: "users_insert d1 em (name @ '' Manager'') Cluster (rq_location rq)
               (Some (c_id cluster)) = Inr (d2, user)"
    and d': "d' = clusters_update_manager d2 (c_id cluster) (u_id user)"
    and c: "c = cluster\<lparr>c_manager_id := Some (u_id user)\<rparr>"
    by (auto simp: create_cluster_def split: option.splits if_splits sum.splits prod.splits)
  note d1 = clusters_insert_Inr(1) [OF ci]
  note f = clusters_insert_fresh [OF ci]
  note d2 = users_insert_Inr [OF ui]
  have cid: "c_id c = c_id cluster" by (simp add: c)
  have same: "map (\<lambda>x. if c_id x = c_id cluster then x\<lparr>c_manager_id := Some (u_id user)\<rparr> else x)
                (clusters d) = clusters d"
    using notin_mapD [OF f(1)] by (intro map_idI) simp
  have cl: "clusters d' = clusters d @ [c]"
    by (simp add: d' clusters_update_manager_def d2(1) d1 same c)
  have us: "users d' = users d @ [user]"
    by (simp add: d' clusters_update_manager_def d2(1) d1)
  have rest: "production d' = production d" "orders d' = orders d"
    by (simp_all add: d' clusters_update_manager_def d2(1) d1)
  from us d2(2,3) cl f rest show ?thesis
    by (intro exI [of _ user]) (simp add: c)
qed

lemma rohri_created:
  "snd (create_cluster util_db rohri_request) =
     ClusterCreated \<lparr>c_id = 31, c_name = ''Rohri Unit'', c_manager_name = ''Ali'',
                      c_location = ''Rohri, Sindh'', c_manager_id = Some 1, c_capacity = 60,
                      c_utilization = 0, c_status = ''Active''\<rparr> ''rohri@greenverse.com''"
  by code_simp

lemma long_name_inserts:
  "\<exists>d1 cl. clusters_insert util_db (replicate 250 (CHR ''x'')) ''Ali''
               (locationValue None (Some ''Rohri'') (Some ''Sindh'')) 60 = Inr (d1, cl) \<and>
           users_insert d1 ''rohri@greenverse.com'' (replicate 250 (CHR ''x'') @ '' Manager'')
               Cluster None (Some (c_id cl)) = Inl StringTooLong"
  by (simp add: clusters_insert_def users_insert_def varchar_def locationValue_def js_or_def
        blank_def Let_def)

lemma long_name_failed:
  "snd (create_cluster util_db long_name_request) = FailedToCreateCluster"
  by code_simp

text \<open>
  Claim C8, on the code. A creation that answers 201 appends the cluster row, with its
  manager set, and exactly one user: of role cluster, with the new cluster's id, and the
  only user with that id. The deletion of that cluster then answers 500 and removes
  nothing: its first statement deletes the users of the cluster, among them the manager,
  whom \<^verbatim>\<open>clusters.manager_id\<close> still references, and the foreign key has no
  \<^verbatim>\<open>ON DELETE\<close> action. The migration that adds \<^verbatim>\<open>manager_name\<close> sets both references to
  \<^verbatim>\<open>NULL\<close> before it deletes; the handler does not.
\<close>

theorem create_then_delete_cluster:
  assumes "create_cluster d rq = (d', ClusterCreated c email)"
  shows "\<exists>u. users d' = users d @ [u] \<and> u_role u = Cluster \<and>
             filter (\<lambda>x. u_cluster_id x = Some (c_id c)) (users d') = [u] \<and>
             clusters d' = clusters d @ [c] \<and> c_manager_id c = Some (u_id u) \<and>
             delete_cluster d' (c_id c) = (d', FailedToDeleteCluster)"
proof -
  from create_cluster_created [OF assms] obtain u where
    us: "users d' = users d @ [u]" and ro: "u_role u = Cluster"
    and uc: "u_cluster_id u = Some (c_id c)" and cm: "c_manager_id c = Some (u_id u)"
    and cl: "clusters d' = clusters d @ [c]" and f: "c_id c \<notin> set (cluster_refs d)"
    by blast
  have "Some (c_id c) \<notin> set (map u_cluster_id (users d))"
    using f by (simp add: cluster_refs_def somes_set)
  from notin_mapD [OF this]
  have "\<forall>x \<in> set (users d). u_cluster_id x \<noteq> Some (c_id c)" by blast
  then have one: "filter (\<lambda>x. u_cluster_id x = Some (c_id c)) (users d') = [u]"
    by (simp add: us uc filter_empty_conv)
  have "u_id u \<in> set (user_refs d')"
    by (simp add: user_refs_def somes_set cl cm [symmetric])
  then have "users_delete d' (\<lambda>x. u_cluster_id x = Some (c_id c)) = Inl ForeignKeyViolation"
    by (auto simp: users_delete_def one list_ex_iff)
  then have "delete_cluster d' (c_id c) = (d', FailedToDeleteCluster)"
    by (simp add: delete_cluster_def)
  with us ro one cl cm show ?thesis by blast
qed


theorem create_then_delete_cluster_witness:
  "cluster_status (snd (create_cluster util_db rohri_request)) = 201 \<and>
   delete_cluster (fst (create_cluster util_db rohri_request)) 31
     = (fst (create_cluster util_db rohri_request), FailedToDeleteCluster) \<and>
   cluster_status FailedToDeleteCluster = 500"
proof -
  have e: "create_cluster util_db rohri_request =
     (fst (create_cluster util_db rohri_request),
      ClusterCreated \<lparr>c_id = 31, c_name = ''Rohri Unit'', c_manager_name = ''Ali'',
                      c_location = ''Rohri, Sindh'', c_manager_id = Some 1, c_capacity = 60,
                      c_utilization = 0, c_status = ''Active''\<rparr> ''rohri@greenverse.com'')"
    using rohri_created by (simp add: prod_eq_iff)
  from create_then_delete_cluster [OF e] show ?thesis
    by (auto simp: rohri_created)
qed

text \<open>
  Claim C9. Whenever the creation of a cluster does not answer 201, the store is the one
  before the request. In particular, when the insert of the paired user fails after the
  cluster row was inserted, the handler deletes that row before it answers 500, and this
  delete, issued on the store right after the cluster insert, is accepted and gives back
  the store before the insert. The witness is a cluster name of 250 characters: the
  cluster row is accepted, the user name \<^verbatim>\<open>`${name} Manager`\<close> does not fit
  \<^verbatim>\<open>VARCHAR(255)\<close>.
\<close>

theorem create_cluster_rollback:
  assumes "create_cluster d rq = (d', r)" and "cluster_status r \<noteq> 201"
  shows "d' = d \<and>
         (\<forall>name manager_name location capacity d1 cluster.
            clusters_insert d name manager_name location capacity = Inr (d1, cluster) \<longrightarrow>
            clusters_delete d1 (c_id cluster) = Inr d)"
proof
  show "d' = d"
    using assms
    by (auto simp: create_cluster_def clusters_insert_delete
          split: option.splits if_splits sum.splits prod.splits)
  show "\<forall>name manager_name location capacity d1 cluster.
            clusters_insert d name manager_name location capacity = Inr (d1, cluster) \<longrightarrow>
            clusters_delete d1 (c_id cluster) = Inr d"
    using clusters_insert_delete by blast
qed

theorem create_cluster_rollback_witness:
  "(\<exists>d1 cl. clusters_insert util_db (replicate 250 (CHR ''x'')) ''Ali''
               (locationValue None (Some ''Rohri'') (Some ''Sindh'')) 60 = Inr (d1, cl) \<and>
            users_insert d1 ''rohri@greenverse.com'' (replicate 250 (CHR ''x'') @ '' Manager'')
               Cluster None (Some (c_id cl)) = Inl StringTooLong) \<and>
   create_cluster util_db long_name_request = (util_db, FailedToCreateCluster) \<and>
   cluster_status FailedToCreateCluster = 500"
proof -
  have st: "cluster_status (snd (create_cluster util_db long_name_request)) \<noteq> 201"
    by (simp add: long_name_failed)
  from create_cluster_rollback [OF prod.collapse [symmetric] st]
  have "fst (create_cluster util_db long_name_request) = util_db" by blast
  with long_name_failed long_name_inserts show ?thesis
    by (simp add: prod_eq_iff)
qed

section \<open>The legacy order and the profile\<close>

text \<open>
  Claim C10. The legacy single-product order never reads the client profiles: replacing
  the table by any other leaves the response and every other table as they were, and the
  response is never ProfileIncomplete. A client without a profile places a single-product
  order (201) where the cart checkout of the same line answers ProfileIncomplete.
\<close>

theorem post_order_ignores_profile:
  "post_order (d\<lparr>client_profiles := ps\<rparr>) user product_id quantity delivery_date =
     (fst (post_order d user product_id quantity delivery_date)\<lparr>client_profiles := ps\<rparr>,
      snd (post_order d user product_id quantity delivery_date))
   \<and> snd (post_order d user product_id quantity delivery_date) \<noteq> ProfileIncomplete
   \<and> http_status (snd (post_order (shop_db\<lparr>client_profiles := []\<rparr>) client1 (Some 10) (Some 3) None)) = 201
   \<and> snd (post_cart (shop_db\<lparr>client_profiles := []\<rparr>) client1 (Some [line 10 3]) None) = ProfileIncomplete"
proof -
  have a: "post_order (d\<lparr>client_profiles := ps\<rparr>) user product_id quantity delivery_date =
     (fst (post_order d user product_id quantity delivery_date)\<lparr>client_profiles := ps\<rparr>,
      snd (post_order d user product_id quantity delivery_date))"
    by (auto simp: post_order_def product_by_id_def orders_insert_def order_ids_in_use_def
        products_update_stock_def Let_def split: option.splits sum.splits prod.splits if_splits)
  have b: "snd (post_order d user product_id quantity delivery_date) \<noteq> ProfileIncomplete"
    by (auto simp: post_order_def product_by_id_def orders_insert_def order_ids_in_use_def
        products_update_stock_def Let_def split: option.splits sum.splits prod.splits if_splits)
  have c: "http_status (snd (post_order (shop_db\<lparr>client_profiles := []\<rparr>) client1 (Some 10) (Some 3) None)) = 201"
    by (simp add: post_order_def product_by_id_def orders_insert_def order_ids_in_use_def
        products_update_stock_def Let_def shop_db_def client1_def single_def fresh_def)
  have e: "snd (post_cart (shop_db\<lparr>client_profiles := []\<rparr>) client1 (Some [line 10 3]) None) = ProfileIncomplete"
    by (simp add: post_cart_def profile_incomplete_def profile_by_user_def single_def)
  from a b c e show ?thesis by blast
qed

end
